theory Spec2Isabelle
  imports Main "HOL-Library.Sublist"
begin

section \<open>Strings\<close>

text \<open>
  A JavaScript string is modelled as a \<^typ>\<open>string\<close>: the list of its code units, restricted
  to the code units below 256. The white space of \<open>String.prototype.trim\<close> and of the
  regular-expression class \<open>\s\<close> is, in that range, TAB, LF, VT, FF, CR, SPACE and NBSP; the
  line terminators that \<open>.\<close> does not match are LF and CR.
\<close>

definition is_space :: "char \<Rightarrow> bool" where
  "is_space c = (c \<in> set [CHR 0x09, CHR 0x0A, CHR 0x0B, CHR 0x0C, CHR 0x0D, CHR 0x20, CHR 0xA0])"

definition is_line_terminator :: "char \<Rightarrow> bool" where
  "is_line_terminator c = (c \<in> set [CHR 0x0A, CHR 0x0D])"

text \<open>\<open>s.trim()\<close>\<close>

definition trim :: "string \<Rightarrow> string" where
  "trim s = rev (dropWhile is_space (rev (dropWhile is_space s)))"

text \<open>\<open>s.includes(pat)\<close>\<close>

fun includes_str :: "string \<Rightarrow> string \<Rightarrow> bool" where
  "includes_str [] pat = (pat = [])"
| "includes_str (c # cs) pat = (prefix pat (c # cs) \<or> includes_str cs pat)"

text \<open>\<open>s.startsWith(p)\<close>\<close>

definition startsWith :: "string \<Rightarrow> string \<Rightarrow> bool" where
  "startsWith s p = prefix p s"

text \<open>\<open>s.split(d)\<close> for a one-character separator: the result is never empty.\<close>

fun split_str :: "char \<Rightarrow> string \<Rightarrow> string list" where
  "split_str d [] = [[]]"
| "split_str d (c # cs) =
     (if c = d then [] # split_str d cs
      else (case split_str d cs of [] \<Rightarrow> [[c]] | w # ws \<Rightarrow> (c # w) # ws))"

text \<open>\<open>xs.join(d)\<close>\<close>

fun join_str :: "string \<Rightarrow> string list \<Rightarrow> string" where
  "join_str d [] = []"
| "join_str d [w] = w"
| "join_str d (w # ws) = w @ d @ join_str d ws"

text \<open>The decimal rendering of a non-negative integer, as a template literal prints it.\<close>

definition digit_char :: "nat \<Rightarrow> char" where
  "digit_char d = ''0123456789'' ! d"

fun show_nat :: "nat \<Rightarrow> string" where
  "show_nat n = (if n < 10 then [digit_char n] else show_nat (n div 10) @ [digit_char (n mod 10)])"

declare show_nat.simps [simp del]

section \<open>Regular expressions\<close>

text \<open>
  The fragment of JavaScript regular expressions that the source uses without captures:
  literals, character classes, \<open>.\<close>, \<open>\s\<close>, sequence, alternative, \<open>*\<close> and \<open>+\<close>.
  \<open>test\<close> is \<open>RegExp.prototype.test\<close> for a pattern with no flag and no anchor: some substring
  of the subject is matched. Matching goes by derivatives.
\<close>

datatype rx =
    Null
  | Eps
  | Chr char
  | OneOf "char list"
  | Dot
  | Space
  | Seq rx rx
  | Alt rx rx
  | Star rx

definition Plus :: "rx \<Rightarrow> rx" where
  "Plus r = Seq r (Star r)"

fun lit :: "string \<Rightarrow> rx" where
  "lit [] = Eps"
| "lit (c # cs) = Seq (Chr c) (lit cs)"

fun nullable :: "rx \<Rightarrow> bool" where
  "nullable Null = False"
| "nullable Eps = True"
| "nullable (Chr c) = False"
| "nullable (OneOf cs) = False"
| "nullable Dot = False"
| "nullable Space = False"
| "nullable (Seq r s) = (nullable r \<and> nullable s)"
| "nullable (Alt r s) = (nullable r \<or> nullable s)"
| "nullable (Star r) = True"

fun deriv :: "char \<Rightarrow> rx \<Rightarrow> rx" where
  "deriv c Null = Null"
| "deriv c Eps = Null"
| "deriv c (Chr d) = (if c = d then Eps else Null)"
| "deriv c (OneOf cs) = (if c \<in> set cs then Eps else Null)"
| "deriv c Dot = (if is_line_terminator c then Null else Eps)"
| "deriv c Space = (if is_space c then Eps else Null)"
| "deriv c (Seq r s) =
     (if nullable r then Alt (Seq (deriv c r) s) (deriv c s) else Seq (deriv c r) s)"
| "deriv c (Alt r s) = Alt (deriv c r) (deriv c s)"
| "deriv c (Star r) = Seq (deriv c r) (Star r)"

text \<open>Some prefix of the subject is matched.\<close>

fun match_here :: "rx \<Rightarrow> string \<Rightarrow> bool" where
  "match_here r [] = nullable r"
| "match_here r (c # cs) = (nullable r \<or> match_here (deriv c r) cs)"

text \<open>Some substring of the subject is matched.\<close>

fun test :: "rx \<Rightarrow> string \<Rightarrow> bool" where
  "test r [] = nullable r"
| "test r (c # cs) = (match_here r (c # cs) \<or> test r cs)"

text \<open>
  What a pattern denotes: the set of the strings it matches as a whole. The matcher is
  proved right against it below.
\<close>

inductive_set star :: "string set \<Rightarrow> string set" for A :: "string set" where
  star_empty: "[] \<in> star A"
| star_step: "u \<in> A \<Longrightarrow> v \<in> star A \<Longrightarrow> u @ v \<in> star A"

fun lang :: "rx \<Rightarrow> string set" where
  "lang Null = {}"
| "lang Eps = {[]}"
| "lang (Chr c) = {[c]}"
| "lang (OneOf cs) = {[c] | c. c \<in> set cs}"
| "lang Dot = {[c] | c. \<not> is_line_terminator c}"
| "lang Space = {[c] | c. is_space c}"
| "lang (Seq r s) = {u @ v | u v. u \<in> lang r \<and> v \<in> lang s}"
| "lang (Alt r s) = lang r \<union> lang s"
| "lang (Star r) = star (lang r)"

section \<open>The terminal command tool: command validation\<close>

record validation =
  valid :: bool
  error :: "string option"

definition allowedCommands :: "string list" where
  "allowedCommands =
     [''ls'', ''dir'', ''pwd'', ''whoami'', ''date'', ''uptime'',
      ''find'', ''locate'', ''which'', ''type'',
      ''head'', ''tail'', ''cat'', ''wc'', ''sort'', ''uniq'',
      ''ps'', ''top'', ''df'', ''du'', ''free'',
      ''node'', ''npm'', ''python'', ''python3'', ''java'',
      ''git'']"

definition shell_metacharacters :: "char list" where
  "shell_metacharacters = '';&|`$(){}[]''"

definition dangerousPatterns :: "rx list" where
  "dangerousPatterns =
     [OneOf shell_metacharacters,
      lit ''..'',
      Alt (lit ''/dev/'') (Alt (lit ''/proc/'') (lit ''/sys/'')),
      Seq (lit ''rm'') (Seq (Plus Space) (lit ''-rf'')),
      Alt (lit ''sudo'') (lit ''su''),
      Alt (lit ''chmod'') (lit ''chown''),
      Alt (lit ''wget'') (Seq (lit ''curl'') (Seq (Star Dot) (lit ''-o''))),
      Alt (Seq (Chr CHR ''>'') (Seq (Star Space) (Chr CHR ''/''))) (lit ''>>'')]"

text \<open>The loop over the patterns, which returns at the first one that matches.\<close>

fun any_pattern_matches :: "rx list \<Rightarrow> string \<Rightarrow> bool" where
  "any_pattern_matches [] s = False"
| "any_pattern_matches (p # ps) s = (if test p s then True else any_pattern_matches ps s)"

text \<open>\<open>trimmedCommand.split(' ')[0]\<close>; \<open>None\<close> is \<open>undefined\<close>.\<close>

definition baseCommand_of :: "string \<Rightarrow> string option" where
  "baseCommand_of trimmedCommand =
     (case split_str CHR '' '' trimmedCommand of [] \<Rightarrow> None | w # ws \<Rightarrow> Some w)"

text \<open>\<open>baseCommand || 'empty'\<close>\<close>

definition or_default :: "string option \<Rightarrow> string \<Rightarrow> string" where
  "or_default v d = (case v of None \<Rightarrow> d | Some s \<Rightarrow> (if s = [] then d else s))"

definition validateCommand :: "string \<Rightarrow> validation" where
  "validateCommand command =
     (let trimmedCommand = trim command in
      if trimmedCommand = [] then
        \<lparr>valid = False, error = Some ''Command cannot be empty''\<rparr>
      else if any_pattern_matches dangerousPatterns trimmedCommand then
        \<lparr>valid = False, error = Some ''Command contains dangerous patterns''\<rparr>
      else
        (let baseCommand = baseCommand_of trimmedCommand;
             not_allowed =
               \<lparr>valid = False,
                error = Some (''Command '' @ [CHR 0x27] @ or_default baseCommand ''empty'' @
                              [CHR 0x27] @ '' is not in the allowed list'')\<rparr>
         in case baseCommand of
              None \<Rightarrow> not_allowed
            | Some b \<Rightarrow>
                if b = [] \<or> b \<notin> set allowedCommands then not_allowed
                else \<lparr>valid = True, error = None\<rparr>))"

definition sanitizeCommand :: "string \<Rightarrow> string" where
  "sanitizeCommand command = trim command"

section \<open>Values, exceptions and effects\<close>

text \<open>
  Tool parameters arrive as parsed JSON (\<open>Record<string, any>\<close>), so the model keeps them
  dynamically typed. A JavaScript value is a \<open>json option\<close>, where \<open>None\<close> is \<open>undefined\<close>.
\<close>

datatype json =
    JNull
  | JBool bool
  | JNum int
  | JStr string
  | JArr "json list"
  | JObj "(string \<times> json) list"

type_synonym jsval = "json option"

text \<open>
  A thrown value is an \<open>Error\<close> with its message, or something that is no \<open>Error\<close>. The
  message of an engine \<open>TypeError\<close> is not fixed by the source; the model uses its name.
\<close>

datatype exn = Error string | NonError

definition TypeError :: exn where
  "TypeError = Error ''TypeError''"

text \<open>\<open>error instanceof Error ? error.message : dflt\<close>\<close>

fun message_or :: "string \<Rightarrow> exn \<Rightarrow> string" where
  "message_or dflt (Error m) = m"
| "message_or dflt NonError = dflt"

text \<open>
  \<open>v.k\<close> for one of the keys the source reads: a \<open>TypeError\<close> on \<open>undefined\<close> and
  \<open>null\<close>, the member of an object, \<open>undefined\<close> on every other value.
\<close>

fun get_prop :: "jsval \<Rightarrow> string \<Rightarrow> exn + jsval" where
  "get_prop None k = Inl TypeError"
| "get_prop (Some JNull) k = Inl TypeError"
| "get_prop (Some (JObj kvs)) k = Inr (map_of kvs k)"
| "get_prop (Some v) k = Inr None"

text \<open>
  The receiver of a string method (\<open>command.trim()\<close>, \<open>query.toLowerCase()\<close>,
  \<open>pattern.replace(...)\<close>) or the argument of \<open>path.resolve\<close>: anything but a string
  throws a \<open>TypeError\<close>.
\<close>

fun as_string :: "jsval \<Rightarrow> exn + string" where
  "as_string (Some (JStr s)) = Inr s"
| "as_string v = Inl TypeError"


text \<open>\<open>{...obj, k: v}\<close>: every member of \<open>obj\<close> is kept, \<open>k\<close> is set to \<open>v\<close>.\<close>

fun obj_set :: "(string \<times> string) list \<Rightarrow> string \<Rightarrow> string \<Rightarrow> (string \<times> string) list" where
  "obj_set [] k v = [(k, v)]"
| "obj_set ((k', v') # kvs) k v = (if k' = k then (k, v) # kvs else (k', v') # obj_set kvs k v)"

record Stats =
  isFile :: bool
  isDirectory :: bool
  size :: nat
  mtime :: string

record ExecOptions =
  timeout :: nat
  maxBuffer :: nat
  cwd :: "string option"
  env :: "(string \<times> string) list option"

text \<open>What a tool or the agent does to the outside, in the order it does it.\<close>

datatype effect =
    FsStat string
  | FsAccess string
  | FsReadFileUtf8 string
  | FsReadFile string
  | FsReaddir string
  | ListEntries string "(string \<times> bool) list"
  | Exec string ExecOptions
  | LlmInvoke "string list"
  | ToolExecute string jsval

record AgentConfig =
  anthropicApiKey :: string
  maxFileSize :: nat
  allowedExtensions :: "string list"
  sandboxDirectory :: string
  logLevel :: string

text \<open>
  The process and its surroundings. What the file system, a spawned shell and the language
  model answer may depend on everything done so far, so each takes the effects so far.
  \<open>JSON.parse\<close>, and \<open>formatFileSize\<close> (floating-point arithmetic), are parameters.
  A directory entry is its name with the value of \<open>isDirectory()\<close>; \<open>list_entries\<close> is the
  loop of the directory listing over the entries it has read.
\<close>

record world =
  process_cwd :: string
  process_env :: "(string \<times> string) list"
  config :: AgentConfig
  fs_stat :: "effect list \<Rightarrow> string \<Rightarrow> exn + Stats"
  fs_access :: "effect list \<Rightarrow> string \<Rightarrow> exn + unit"
  fs_readFile_utf8 :: "effect list \<Rightarrow> string \<Rightarrow> exn + string"
  fs_readFile :: "effect list \<Rightarrow> string \<Rightarrow> exn + string"
  fs_readdir :: "effect list \<Rightarrow> string \<Rightarrow> exn + (string \<times> bool) list"
  list_entries :: "effect list \<Rightarrow> string \<Rightarrow> (string \<times> bool) list \<Rightarrow> exn + string"
  execAsync :: "effect list \<Rightarrow> string \<Rightarrow> ExecOptions \<Rightarrow> exn + string \<times> string"
  llm_invoke :: "effect list \<Rightarrow> string list \<Rightarrow> exn + string"
  JSON_parse :: "string \<Rightarrow> exn + json"
  formatFileSize :: "nat \<Rightarrow> string"

text \<open>A computation that may throw, over the effects so far.\<close>

type_synonym 'a io = "effect list \<Rightarrow> (exn + 'a) \<times> effect list"

definition io_return :: "'a \<Rightarrow> 'a io" where
  "io_return x = (\<lambda>tr. (Inr x, tr))"

definition io_throw :: "exn \<Rightarrow> 'a io" where
  "io_throw e = (\<lambda>tr. (Inl e, tr))"

definition io_lift :: "exn + 'a \<Rightarrow> 'a io" where
  "io_lift r = (\<lambda>tr. (r, tr))"

definition io_bind :: "'a io \<Rightarrow> ('a \<Rightarrow> 'b io) \<Rightarrow> 'b io" where
  "io_bind m f = (\<lambda>tr. case m tr of (Inl e, tr') \<Rightarrow> (Inl e, tr') | (Inr x, tr') \<Rightarrow> f x tr')"

text \<open>\<open>try { m } catch (error) { h error }\<close>\<close>

definition io_catch :: "'a io \<Rightarrow> (exn \<Rightarrow> 'a io) \<Rightarrow> 'a io" where
  "io_catch m h = (\<lambda>tr. case m tr of (Inl e, tr') \<Rightarrow> h e tr' | (Inr x, tr') \<Rightarrow> (Inr x, tr'))"

definition io_effect :: "effect \<Rightarrow> (effect list \<Rightarrow> exn + 'a) \<Rightarrow> 'a io" where
  "io_effect e answer = (\<lambda>tr. (answer tr, tr @ [e]))"

section \<open>Paths\<close>

text \<open>
  \<open>path.resolve(p)\<close> of Node on POSIX: a relative path is taken from the working directory,
  empty and \<open>.\<close> segments are dropped, a \<open>..\<close> segment drops the segment before it (none
  at the root), and the result has one leading and no trailing separator.
\<close>

fun normalizeString :: "string list \<Rightarrow> string list \<Rightarrow> string list" where
  "normalizeString res [] = res"
| "normalizeString res (seg # segs) =
     (if seg = [] \<or> seg = ''.'' then normalizeString res segs
      else if seg = ''..'' then normalizeString (butlast res) segs
      else normalizeString (res @ [seg]) segs)"

definition path_resolve :: "string \<Rightarrow> string \<Rightarrow> string" where
  "path_resolve working p =
     (let resolvedPath =
            (if p = [] then working
             else if hd p = CHR ''/'' then p
             else working @ ''/'' @ p)
      in ''/'' @ join_str ''/'' (normalizeString [] (split_str CHR ''/'' resolvedPath)))"

definition resolve_arg :: "world \<Rightarrow> jsval \<Rightarrow> exn + string" where
  "resolve_arg w v = (case as_string v of Inl e \<Rightarrow> Inl e | Inr p \<Rightarrow> Inr (path_resolve (process_cwd w) p))"

text \<open>
  \<open>path.extname(p)\<close>: from the last \<open>.\<close> of the last segment, and empty when there is no
  \<open>.\<close> there, when the only one starts the segment, or when the segment is \<open>..\<close>.
\<close>

definition basename_of :: "string \<Rightarrow> string" where
  "basename_of p = rev (takeWhile (\<lambda>c. c \<noteq> CHR ''/'') (rev p))"

definition extname :: "string \<Rightarrow> string" where
  "extname p =
     (let b = basename_of p;
          after_dot = rev (takeWhile (\<lambda>c. c \<noteq> CHR ''.'') (rev b))
      in if CHR ''.'' \<notin> set b then []
         else if length after_dot + 1 = length b then []
         else if b = ''..'' then []
         else CHR ''.'' # after_dot)"

text \<open>\<open>absolutePath.includes('..') || absolutePath.includes('~')\<close>\<close>

definition has_traversal :: "string \<Rightarrow> bool" where
  "has_traversal absolutePath = (includes_str absolutePath ''..'' \<or> includes_str absolutePath ''~'')"

text \<open>
  \<open>allowedPaths.some(allowedPath => absolutePath.startsWith(path.resolve(allowedPath)))\<close>
  with \<open>allowedPaths = [process.cwd(), config.sandboxDirectory]\<close>
\<close>

definition isAllowed :: "world \<Rightarrow> string \<Rightarrow> bool" where
  "isAllowed w absolutePath =
     (let allowedPaths = [process_cwd w, sandboxDirectory (config w)]
      in list_ex (\<lambda>allowedPath. startsWith absolutePath (path_resolve (process_cwd w) allowedPath))
           allowedPaths)"

section \<open>The five tools\<close>

record ToolResult =
  success :: bool
  "output" :: string
  error :: "string option"

text \<open>What every \<open>catch\<close> block of an \<open>execute\<close> returns.\<close>

definition failure :: "exn \<Rightarrow> ToolResult io" where
  "failure e = io_return \<lparr>success = False, output = [], error = Some (message_or ''Unknown error'' e)\<rparr>"

text \<open>\<open>throw new Error(validationResult.error)\<close>; the message of \<open>new Error(undefined)\<close> is empty.\<close>

definition throw_validation :: "validation \<Rightarrow> 'a io" where
  "throw_validation v = io_throw (Error (case validation.error v of None \<Rightarrow> [] | Some m \<Rightarrow> m))"

definition invalid :: "string \<Rightarrow> validation" where
  "invalid m = \<lparr>valid = False, error = Some m\<rparr>"

definition is_valid :: validation where
  "is_valid = \<lparr>valid = True, error = None\<rparr>"

subsection \<open>Web search\<close>

text \<open>\<open>s.toLowerCase()\<close> on code units below 256.\<close>

definition toLowerCase_char :: "char \<Rightarrow> char" where
  "toLowerCase_char c =
     (let n = of_char c :: nat
      in if (65 \<le> n \<and> n \<le> 90) \<or> (192 \<le> n \<and> n \<le> 222 \<and> n \<noteq> 215) then char_of (n + 32) else c)"

definition toLowerCase :: "string \<Rightarrow> string" where
  "toLowerCase s = map toLowerCase_char s"

definition getMockSearchResults :: "string \<Rightarrow> string" where
  "getMockSearchResults query =
     (let lowerQuery = toLowerCase query in
      if includes_str lowerQuery ''splunk'' \<and> includes_str lowerQuery ''query'' then
        [CHR 0x0A] @
        ''## Splunk Query Best Practices'' @ [CHR 0x0A] @
        [CHR 0x0A] @
        ''### Common Search Commands:'' @ [CHR 0x0A] @
        ''- search: Basic search command'' @ [CHR 0x0A] @
        ''- stats: Statistical operations'' @ [CHR 0x0A] @
        ''- timechart: Time-based charting'' @ [CHR 0x0A] @
        ''- eval: Field evaluation and calculation'' @ [CHR 0x0A] @
        ''- where: Conditional filtering'' @ [CHR 0x0A] @
        ''- sort: Result sorting'' @ [CHR 0x0A] @
        ''- head/tail: Limit results'' @ [CHR 0x0A] @
        [CHR 0x0A] @
        ''### Query Structure:'' @ [CHR 0x0A] @
        ''1. Search terms (index, sourcetype, keywords)'' @ [CHR 0x0A] @
        ''2. Filtering (where, search)'' @ [CHR 0x0A] @
        ''3. Field extraction and evaluation (eval, rex)'' @ [CHR 0x0A] @
        ''4. Aggregation (stats, timechart)'' @ [CHR 0x0A] @
        ''5. Formatting (sort, head, tail)'' @ [CHR 0x0A] @
        [CHR 0x0A] @
        ''### Examples:'' @ [CHR 0x0A] @
        ''- index=main sourcetype=access_log status=404 | stats count by client_ip'' @
        [CHR 0x0A] @
        ''- index=security sourcetype=firewall action=blocked | timechart count by '' @
        ''src_ip'' @ [CHR 0x0A] @
        ''- index=app_logs error | eval hour=strftime(_time, '' @ [CHR 0x22] @ ''%H'' @
        [CHR 0x22] @ '') | stats count by hour'' @ [CHR 0x0A] @
        ''      ''
      else if includes_str lowerQuery ''spl'' \<or> includes_str lowerQuery ''search processing language'' then
        [CHR 0x0A] @
        ''## Splunk Search Processing Language (SPL) Guide'' @ [CHR 0x0A] @
        [CHR 0x0A] @
        ''### Field Extraction:'' @ [CHR 0x0A] @
        ''- rex: Regular expression extraction'' @ [CHR 0x0A] @
        ''- extract: Automatic field extraction'' @ [CHR 0x0A] @
        ''- eval: Create calculated fields'' @ [CHR 0x0A] @
        [CHR 0x0A] @
        ''### Aggregation Functions:'' @ [CHR 0x0A] @
        ''- count, sum, avg, min, max'' @ [CHR 0x0A] @
        ''- dc (distinct count)'' @ [CHR 0x0A] @
        ''- values, list'' @ [CHR 0x0A] @
        ''- percentile'' @ [CHR 0x0A] @
        [CHR 0x0A] @
        ''### Time Functions:'' @ [CHR 0x0A] @
        ''- strftime, strptime'' @ [CHR 0x0A] @
        ''- earliest, latest'' @ [CHR 0x0A] @
        ''- bucket, span'' @ [CHR 0x0A] @
        ''      ''
      else
        ''Mock search results for query: '' @ [CHR 0x22] @ query @
        [CHR 0x22] @
        ''. In production, this would return real web search results about Splunk '' @
        ''queries and best practices.'')"

definition WebSearchTool_execute :: "world \<Rightarrow> jsval \<Rightarrow> ToolResult io" where
  "WebSearchTool_execute w parameters =
     io_catch
       (io_bind (io_lift (get_prop parameters ''query'')) (\<lambda>query.
        io_bind (io_lift (as_string query)) (\<lambda>query.
        let mockResults = getMockSearchResults query
        in io_return \<lparr>success = True, output = mockResults, error = None\<rparr>)))
       failure"

subsection \<open>Terminal command\<close>

definition exec_options :: "world \<Rightarrow> ExecOptions" where
  "exec_options w =
     \<lparr>timeout = 30000,
      maxBuffer = 1024 * 1024,
      cwd = Some (process_cwd w),
      env = Some (obj_set (process_env w) ''PATH''
                    (or_default (map_of (process_env w) ''PATH'') []))\<rparr>"

definition TerminalCommandTool_execute :: "world \<Rightarrow> jsval \<Rightarrow> ToolResult io" where
  "TerminalCommandTool_execute w parameters =
     io_catch
       (io_bind (io_lift (get_prop parameters ''command'')) (\<lambda>command.
        io_bind (io_lift (as_string command)) (\<lambda>command.
        let validationResult = validateCommand command in
        if \<not> valid validationResult then throw_validation validationResult
        else
          let sanitizedCommand = sanitizeCommand command in
          io_bind (io_effect (Exec sanitizedCommand (exec_options w))
                     (\<lambda>tr. execAsync w tr sanitizedCommand (exec_options w)))
            (\<lambda>(stdout, stderr).
               io_return
                 \<lparr>success = True,
                  output = stdout @ (if stderr \<noteq> [] then [CHR 0x0A] @ ''Stderr: '' @ stderr else []),
                  error = None\<rparr>))))
       failure"

subsection \<open>File system grep\<close>

definition FileSystemGrepTool_validatePath :: "world \<Rightarrow> jsval \<Rightarrow> validation io" where
  "FileSystemGrepTool_validatePath w inputPath =
     io_catch
       (io_bind (io_lift (resolve_arg w inputPath)) (\<lambda>absolutePath.
        io_bind (io_effect (FsAccess absolutePath) (\<lambda>tr. fs_access w tr absolutePath)) (\<lambda>_.
        if has_traversal absolutePath then io_return (invalid ''Path traversal not allowed'')
        else if \<not> isAllowed w absolutePath then
          io_return (invalid ''Access to this path is not allowed'')
        else io_return is_valid)))
       (\<lambda>error. io_return (invalid ''Path does not exist or is not accessible''))"

text \<open>\<open>s.replace(/[`$;|&<>()]/g, '\\$&')\<close>: a backslash goes before each of these characters.\<close>

definition escaped_characters :: "char list" where
  "escaped_characters = ''`$;|&<>()''"

definition escape_chars :: "string \<Rightarrow> string" where
  "escape_chars s = concat (map (\<lambda>c. if c \<in> set escaped_characters then [CHR 0x5C, c] else [c]) s)"

definition sanitizePattern :: "string \<Rightarrow> string" where
  "sanitizePattern pattern = escape_chars pattern"

definition sanitizePath :: "string \<Rightarrow> string" where
  "sanitizePath inputPath = escape_chars inputPath"

text \<open>\<open>ext.replace('.', '')\<close> removes the first \<open>.\<close> of the extension.\<close>

definition grepCommand :: "AgentConfig \<Rightarrow> string \<Rightarrow> string \<Rightarrow> string" where
  "grepCommand cfg sanitizedPattern sanitizedPath =
     ''grep -r -n -H --include='' @ [CHR 0x22] @ ''*.{'' @
     join_str '','' (map (remove1 CHR ''.'') (allowedExtensions cfg)) @ ''}'' @ [CHR 0x22] @
     '' '' @ [CHR 0x22] @ sanitizedPattern @ [CHR 0x22] @
     '' '' @ [CHR 0x22] @ sanitizedPath @ [CHR 0x22]"

definition grep_options :: ExecOptions where
  "grep_options = \<lparr>timeout = 30000, maxBuffer = 1024 * 1024, cwd = None, env = None\<rparr>"

definition FileSystemGrepTool_execute :: "world \<Rightarrow> jsval \<Rightarrow> ToolResult io" where
  "FileSystemGrepTool_execute w parameters =
     io_catch
       (io_bind (io_lift (get_prop parameters ''pattern'')) (\<lambda>pattern.
        io_bind (io_lift (get_prop parameters ''path'')) (\<lambda>path.
        io_bind (FileSystemGrepTool_validatePath w path) (\<lambda>validationResult.
        if \<not> valid validationResult then throw_validation validationResult
        else
          io_bind (io_lift (as_string pattern)) (\<lambda>pattern.
          io_bind (io_lift (as_string path)) (\<lambda>path.
          let command = grepCommand (config w) (sanitizePattern pattern) (sanitizePath path) in
          io_bind (io_effect (Exec command grep_options)
                     (\<lambda>tr. execAsync w tr command grep_options))
            (\<lambda>(stdout, stderr).
               io_return
                 \<lparr>success = True,
                  output = (if stdout = [] then ''No matches found'' else stdout),
                  error = None\<rparr>)))))))
       failure"

subsection \<open>Folder indexing\<close>

definition FolderIndexingTool_validatePath :: "world \<Rightarrow> jsval \<Rightarrow> validation io" where
  "FolderIndexingTool_validatePath w inputPath =
     io_catch
       (io_bind (io_lift (resolve_arg w inputPath)) (\<lambda>absolutePath.
        io_bind (io_effect (FsStat absolutePath) (\<lambda>tr. fs_stat w tr absolutePath)) (\<lambda>stats.
        if \<not> isDirectory stats then io_return (invalid ''Path is not a directory'')
        else if has_traversal absolutePath then io_return (invalid ''Path traversal not allowed'')
        else if \<not> isAllowed w absolutePath then
          io_return (invalid ''Access to this directory is not allowed'')
        else io_return is_valid)))
       (\<lambda>error. io_return (invalid ''Directory does not exist or is not accessible''))"

text \<open>
  \<open>listDirectoryContents(dirPath)\<close> as \<open>execute\<close> calls it, at depth 0, where the depth
  guard is false and the indentation is empty: a \<open>try\<close> block that reads the directory and
  lists its entries, and a \<open>catch\<close> block that returns the error as a line of text. The loop
  over the entries (the order by \<open>localeCompare\<close>, the sizes in floating point, the icons,
  the calls for the subdirectories with their own \<open>catch\<close> blocks) is taken from the world;
  it may throw, as the \<open>fs.stat\<close> in it may.
\<close>

definition FolderIndexingTool_listDirectoryContents :: "world \<Rightarrow> string \<Rightarrow> string io" where
  "FolderIndexingTool_listDirectoryContents w dirPath =
     io_catch
       (io_bind (io_effect (FsReaddir dirPath) (\<lambda>tr. fs_readdir w tr dirPath)) (\<lambda>entries.
        io_effect (ListEntries dirPath entries) (\<lambda>tr. list_entries w tr dirPath entries)))
       (\<lambda>error.
          io_return (''Error reading directory: '' @ message_or ''unknown'' error @ [CHR 0x0A]))"

definition FolderIndexingTool_execute :: "world \<Rightarrow> jsval \<Rightarrow> ToolResult io" where
  "FolderIndexingTool_execute w parameters =
     io_catch
       (io_bind (io_lift (get_prop parameters ''path'')) (\<lambda>path.
        io_bind (FolderIndexingTool_validatePath w path) (\<lambda>validationResult.
        if \<not> valid validationResult then throw_validation validationResult
        else
          io_bind (io_lift (resolve_arg w path)) (\<lambda>absolutePath.
          io_bind (FolderIndexingTool_listDirectoryContents w absolutePath)
            (\<lambda>contents. io_return \<lparr>success = True, output = contents, error = None\<rparr>)))))
       failure"

subsection \<open>File read\<close>

definition ReadFileTool_validateFile :: "world \<Rightarrow> jsval \<Rightarrow> validation io" where
  "ReadFileTool_validateFile w filePath =
     io_catch
       (io_bind (io_lift (resolve_arg w filePath)) (\<lambda>absolutePath.
        io_bind (io_effect (FsStat absolutePath) (\<lambda>tr. fs_stat w tr absolutePath)) (\<lambda>stats.
        if \<not> isFile stats then io_return (invalid ''Path is not a file'')
        else if size stats > maxFileSize (config w) then
          io_return
            (invalid (''File size ('' @ show_nat (size stats) @
                      '' bytes) exceeds maximum allowed size ('' @
                      show_nat (maxFileSize (config w)) @ '' bytes)''))
        else if has_traversal absolutePath then io_return (invalid ''Path traversal not allowed'')
        else
          let extension = extname absolutePath in
          if extension \<notin> set (allowedExtensions (config w)) \<and> extension \<noteq> [] then
            io_return
              (invalid (''File extension '' @ [CHR 0x27] @ extension @ [CHR 0x27] @ '' is not allowed''))
          else if \<not> isAllowed w absolutePath then
            io_return (invalid ''Access to this file location is not allowed'')
          else io_return is_valid)))
       (\<lambda>error. io_return (invalid ''File does not exist or is not accessible''))"

text \<open>\<open>buffer.toString('hex')\<close>\<close>

definition hex_digit :: "nat \<Rightarrow> char" where
  "hex_digit d = ''0123456789abcdef'' ! d"

definition to_hex :: "string \<Rightarrow> string" where
  "to_hex bytes = concat (map (\<lambda>b. [hex_digit (of_char b div 16), hex_digit (of_char b mod 16)]) bytes)"

text \<open>What the binary read returns: the first 200 bytes in hexadecimal and the length.\<close>

definition binary_preview :: "string \<Rightarrow> string \<Rightarrow> string" where
  "binary_preview filePath buffer =
     ''File: '' @ filePath @ [CHR 0x0A] @
     ''Note: Binary file detected, showing first 200 bytes as hex:'' @ [CHR 0x0A] @
     [CHR 0x0A] @
     to_hex (take 200 buffer) @ [CHR 0x0A] @
     [CHR 0x0A] @
     ''... (file is '' @ show_nat (length buffer) @ '' bytes total)''"

definition ReadFileTool_readFileContent :: "world \<Rightarrow> string \<Rightarrow> string io" where
  "ReadFileTool_readFileContent w filePath =
     io_catch
       (io_bind (io_effect (FsReadFileUtf8 filePath) (\<lambda>tr. fs_readFile_utf8 w tr filePath)) (\<lambda>content.
        io_bind (io_effect (FsStat filePath) (\<lambda>tr. fs_stat w tr filePath)) (\<lambda>stats.
        let header =
              ''File: '' @ filePath @ [CHR 0x0A] @
              ''Size: '' @ formatFileSize w (size stats) @ [CHR 0x0A] @
              ''Last Modified: '' @ mtime stats @ [CHR 0x0A] @
              ''Extension: '' @ or_default (Some (extname filePath)) ''none'' @ [CHR 0x0A] @
              [CHR 0x0A] @
              ''--- File Content ---'' @ [CHR 0x0A]
        in io_return (header @ content))))
       (\<lambda>error.
          io_catch
            (io_bind (io_effect (FsReadFile filePath) (\<lambda>tr. fs_readFile w tr filePath)) (\<lambda>buffer.
             io_return (binary_preview filePath buffer)))
            (\<lambda>binaryError.
               io_throw (Error (''Failed to read file: '' @ message_or ''unknown error'' binaryError))))"

definition ReadFileTool_execute :: "world \<Rightarrow> jsval \<Rightarrow> ToolResult io" where
  "ReadFileTool_execute w parameters =
     io_catch
       (io_bind (io_lift (get_prop parameters ''filepath'')) (\<lambda>filepath.
        io_bind (ReadFileTool_validateFile w filepath) (\<lambda>validationResult.
        if \<not> valid validationResult then throw_validation validationResult
        else
          io_bind (io_lift (resolve_arg w filepath)) (\<lambda>absolutePath.
          io_bind (ReadFileTool_readFileContent w absolutePath)
            (\<lambda>content. io_return \<lparr>success = True, output = content, error = None\<rparr>)))))
       failure"

subsection \<open>The registry\<close>

datatype tool =
    WebSearchTool
  | FileSystemGrepTool
  | TerminalCommandTool
  | FolderIndexingTool
  | ReadFileTool


fun execute :: "world \<Rightarrow> tool \<Rightarrow> jsval \<Rightarrow> ToolResult io" where
  "execute w WebSearchTool = WebSearchTool_execute w"
| "execute w FileSystemGrepTool = FileSystemGrepTool_execute w"
| "execute w TerminalCommandTool = TerminalCommandTool_execute w"
| "execute w FolderIndexingTool = FolderIndexingTool_execute w"
| "execute w ReadFileTool = ReadFileTool_execute w"




section \<open>The query agent\<close>

record ConversationTurn =
  role :: string
  content :: string

record FileAnalysis =
  filePath :: string
  fileType :: string
  content :: string
  patterns :: "string list"
  logFormats :: "string list"
  dataFields :: "string list"
  "imports" :: "string list"

record SplunkQueryContext =
  analysisResults :: "FileAnalysis list"
  userPrompt :: string
  conversationHistory :: "ConversationTurn list"

record ToolCall =
  tool_name :: jsval
  parameters :: jsval
  "output" :: string

record QueryResponse =
  status :: string
  query :: "string option"
  explanation :: "string option"
  tool_calls :: "ToolCall list option"
  error_message :: "string option"








definition buildUserMessage :: "SplunkQueryContext \<Rightarrow> string" where
  "buildUserMessage context =
        ''Please generate a Splunk query for the following request:'' @ [CHR 0x0A] @
        [CHR 0x0A] @
        userPrompt context @
        [CHR 0x0A] @
        [CHR 0x0A] @
        ''Use the provided context analysis and apply Splunk best practices. Focus on '' @
        ''creating an efficient and accurate query that addresses the specific '' @
        ''requirements.''"



text \<open>
  \<open>response.match(/QUERY:\s*(.*?)(?=\n\nEXPLANATION:|$)/s)\<close> and
  \<open>response.match(/EXPLANATION:\s*(.*?)$/s)\<close>. A match starts at the first occurrence of the
  label and takes all the white space after it. The lazy group of the first pattern then
  stops at the first place followed by an empty line and \<open>EXPLANATION:\<close>, or at the end of the
  input; that of the second runs to the end of the input (\<open>.\<close> matches line terminators
  under the flag \<open>s\<close>, and \<open>$\<close> is the end of the input without the flag \<open>m\<close>). The end of the
  input always closes the match, so a label that occurs always matches.
\<close>

fun after_first :: "string \<Rightarrow> string \<Rightarrow> string option" where
  "after_first lbl [] = (if lbl = [] then Some [] else None)"
| "after_first lbl (c # cs) =
     (if prefix lbl (c # cs) then Some (drop (length lbl) (c # cs)) else after_first lbl cs)"

fun lazy_until :: "string \<Rightarrow> string \<Rightarrow> string" where
  "lazy_until stop [] = []"
| "lazy_until stop (c # cs) = (if prefix stop (c # cs) then [] else c # lazy_until stop cs)"

text \<open>The first capture group of each match; \<open>None\<close> when there is no match.\<close>

definition queryMatch :: "string \<Rightarrow> string option" where
  "queryMatch response =
     (case after_first ''QUERY:'' response of
        None \<Rightarrow> None
      | Some rest \<Rightarrow>
          Some (lazy_until ([CHR 0x0A, CHR 0x0A] @ ''EXPLANATION:'') (dropWhile is_space rest)))"

definition explanationMatch :: "string \<Rightarrow> string option" where
  "explanationMatch response =
     (case after_first ''EXPLANATION:'' response of
        None \<Rightarrow> None
      | Some rest \<Rightarrow> Some (dropWhile is_space rest))"

text \<open>\<open>m?.[1]?.trim() || dflt\<close>\<close>

definition trimmed_or :: "string option \<Rightarrow> string \<Rightarrow> string" where
  "trimmed_or m dflt =
     (case m of None \<Rightarrow> dflt | Some g \<Rightarrow> (if trim g = [] then dflt else trim g))"

definition parseQueryResponse :: "string \<Rightarrow> string \<times> string" where
  "parseQueryResponse response =
     (let query = trimmed_or (queryMatch response) (trim response);
          explanation = trimmed_or (explanationMatch response) ''No explanation provided''
      in (query, explanation))"





section \<open>Properties used in the statements\<close>

text \<open>What a computation returns when it does not throw.\<close>

definition io_returns :: "('a \<Rightarrow> bool) \<Rightarrow> 'a io \<Rightarrow> bool" where
  "io_returns P m = (\<forall>tr x tr'. m tr = (Inr x, tr') \<longrightarrow> P x)"

text \<open>A result of the shape the \<open>try\<close> blocks return.\<close>

definition succeeded :: "ToolResult \<Rightarrow> bool" where
  "succeeded r = (success r \<and> ToolResult.error r = None)"

text \<open>The effects that read the content of a file.\<close>

fun is_read :: "effect \<Rightarrow> bool" where
  "is_read (FsReadFileUtf8 p) = True"
| "is_read (FsReadFile p) = True"
| "is_read e = False"

text \<open>The first white-space-delimited token of a trimmed command line.\<close>

definition leading_token :: "string \<Rightarrow> string" where
  "leading_token s = takeWhile (\<lambda>c. \<not> is_space c) s"

text \<open>
  A canonical path lies in a root, directory boundaries respected: it is the root or continues
  it after a separator.
\<close>

definition within_root :: "string \<Rightarrow> string \<Rightarrow> bool" where
  "within_root root p = (p = root \<or> prefix (root @ ''/'') p)"






text \<open>The result of a \<open>catch\<close> block of an \<open>execute\<close>, and the message a failed validation throws.\<close>

definition failed :: "string \<Rightarrow> ToolResult" where
  "failed m = \<lparr>success = False, output = [], error = Some m\<rparr>"




text \<open>The configuration the source falls back to when the environment sets nothing.\<close>

definition default_config :: AgentConfig where
  "default_config =
     \<lparr>anthropicApiKey = [],
      maxFileSize = 10485760,
      allowedExtensions =
        [''.js'', ''.ts'', ''.py'', ''.java'', ''.xml'', ''.json'', ''.csv'', ''.txt'', ''.log'',
         ''.yml'', ''.yaml'', ''.config'', ''.properties'', ''.ini''],
      sandboxDirectory = ''/tmp/splunk-agent-sandbox'',
      logLevel = ''info''\<rparr>"

text \<open>
  A process in \<open>/home/app\<close> with a secret in its environment; a small text file in a
  sibling of the sandbox directory and a file of 20 MB inside the sandbox; a shell that prints
  one line; a model that answers the tool question with free text.
\<close>

definition example_stat :: "string \<Rightarrow> exn + Stats" where
  "example_stat p =
     (if p = ''/tmp/splunk-agent-sandbox-evil/notes.txt'' then
        Inr \<lparr>isFile = True, isDirectory = False, size = 12, mtime = ''2024-01-01T00:00:00.000Z''\<rparr>
      else if p = ''/tmp/splunk-agent-sandbox/big.log'' then
        Inr \<lparr>isFile = True, isDirectory = False, size = 20971520,
             mtime = ''2024-01-01T00:00:00.000Z''\<rparr>
      else Inl (Error ''ENOENT: no such file or directory''))"

definition example_llm :: "string list \<Rightarrow> exn + string" where
  "example_llm messages =
     (if messages \<noteq> [] \<and> prefix ''Given the user'' (last messages) then
        Inr ''I do not need any tools.''
      else Inr '' index=main error '')"

definition example_world :: world where
  "example_world =
     \<lparr>process_cwd = ''/home/app'',
      process_env = [(''PATH'', ''/usr/bin''), (''ANTHROPIC_API_KEY'', ''sk-ant-secret'')],
      config = default_config,
      fs_stat = (\<lambda>tr. example_stat),
      fs_access = (\<lambda>tr p. case example_stat p of Inl e \<Rightarrow> Inl e | Inr st \<Rightarrow> Inr ()),
      fs_readFile_utf8 = (\<lambda>tr p. Inr ''hello world!''),
      fs_readFile = (\<lambda>tr p. Inr ''hello world!''),
      fs_readdir = (\<lambda>tr p. Inr []),
      list_entries = (\<lambda>tr p entries. Inr []),
      execAsync = (\<lambda>tr command options. Inr (''notes.txt'' @ [CHR 0x0A], [])),
      llm_invoke = (\<lambda>tr. example_llm),
      JSON_parse =
        (\<lambda>s. if s = ''{'' @ [CHR 0x22] @ ''tools'' @ [CHR 0x22] @ '': '' @ [CHR 0x22] @ ''none'' @
                      [CHR 0x22] @ ''}''
             then Inr (JObj [(''tools'', JStr ''none'')])
             else Inl (Error ''Unexpected token'')),
      formatFileSize = (\<lambda>n. show_nat n @ '' B'')\<rparr>"









text \<open>A search pattern that closes the quotation mark the grep command line opens.\<close>

definition example_pattern :: string where
  "example_pattern = ''x'' @ [CHR 0x22] @ '' /etc/passwd '' @ [CHR 0x22]"

section \<open>Facts about strings and matching\<close>

lemma includes_str_iff: "includes_str s pat \<longleftrightarrow> (\<exists>p q. s = p @ pat @ q)"
proof (induction s)
  case Nil
  then show ?case by auto
next
  case (Cons c cs)
  show ?case
  proof
    assume "includes_str (c # cs) pat"
    then consider "prefix pat (c # cs)" | "includes_str cs pat" by auto
    then show "\<exists>p q. c # cs = p @ pat @ q"
    proof cases
      case 1
      then obtain q where "c # cs = pat @ q" by (auto simp: prefix_def)
      then have "c # cs = [] @ pat @ q" by simp
      then show ?thesis by blast
    next
      case 2
      then obtain p q where "cs = p @ pat @ q" using Cons.IH by blast
      then have "c # cs = (c # p) @ pat @ q" by simp
      then show ?thesis by blast
    qed
  next
    assume "\<exists>p q. c # cs = p @ pat @ q"
    then obtain p q where pq: "c # cs = p @ pat @ q" by blast
    show "includes_str (c # cs) pat"
    proof (cases p)
      case Nil
      with pq have "prefix pat (c # cs)" by (simp add: prefix_def)
      then show ?thesis by simp
    next
      case (Cons a p')
      with pq have "cs = p' @ pat @ q" by simp
      then have "includes_str cs pat" using Cons.IH by blast
      then show ?thesis by simp
    qed
  qed
qed

text \<open>
  The matcher against what the patterns denote: \<open>match_here\<close> holds when a prefix of the
  subject is in the language of the pattern, \<open>test\<close> when a substring is.
\<close>

lemma nullable_lang: "nullable r \<longleftrightarrow> [] \<in> lang r"
  by (induction r) (auto intro: star_empty)

lemma star_cons:
  "c # w \<in> star A \<longleftrightarrow> (\<exists>u v. w = u @ v \<and> c # u \<in> A \<and> v \<in> star A)"
proof
  assume "c # w \<in> star A"
  then show "\<exists>u v. w = u @ v \<and> c # u \<in> A \<and> v \<in> star A"
  proof (induction "c # w" arbitrary: w rule: star.induct)
    case (star_step u v)
    show ?case
    proof (cases u)
      case Nil
      with star_step show ?thesis by simp
    next
      case (Cons a u')
      with star_step.hyps(4) have "a = c" "w = u' @ v" by simp_all
      with star_step.hyps(1,2) Cons show ?thesis by blast
    qed
  qed
next
  assume "\<exists>u v. w = u @ v \<and> c # u \<in> A \<and> v \<in> star A"
  then obtain u v where "w = u @ v" "c # u \<in> A" "v \<in> star A" by blast
  then have "(c # u) @ v \<in> star A" by (intro star_step)
  with \<open>w = u @ v\<close> show "c # w \<in> star A" by simp
qed

lemma deriv_lang: "w \<in> lang (deriv c r) \<longleftrightarrow> c # w \<in> lang r"
proof (induction r arbitrary: w)
  case (Seq r s)
  show ?case
  proof
    assume "w \<in> lang (deriv c (Seq r s))"
    then consider u v where "w = u @ v" "u \<in> lang (deriv c r)" "v \<in> lang s"
      | "nullable r" "w \<in> lang (deriv c s)"
      by (auto split: if_splits)
    then show "c # w \<in> lang (Seq r s)"
    proof cases
      case 1
      then have "c # u \<in> lang r" using Seq.IH(1) by blast
      with 1 have "c # w = (c # u) @ v \<and> c # u \<in> lang r \<and> v \<in> lang s" by simp
      then show ?thesis by (simp only: lang.simps) blast
    next
      case 2
      then have "[] \<in> lang r" "c # w \<in> lang s" using Seq.IH(2) by (auto simp: nullable_lang)
      then have "[] @ (c # w) \<in> lang (Seq r s)" by (simp only: lang.simps) blast
      then show ?thesis by simp
    qed
  next
    assume "c # w \<in> lang (Seq r s)"
    then obtain u v where uv: "c # w = u @ v" "u \<in> lang r" "v \<in> lang s" by auto
    show "w \<in> lang (deriv c (Seq r s))"
    proof (cases u)
      case Nil
      with uv have "nullable r" "w \<in> lang (deriv c s)"
        using Seq.IH(2) by (auto simp: nullable_lang)
      then show ?thesis by simp
    next
      case (Cons a u')
      with uv have "w = u' @ v" "u' \<in> lang (deriv c r)" using Seq.IH(1) by auto
      with uv(3) show ?thesis by auto
    qed
  qed
next
  case (Star r)
  show ?case
  proof
    assume "w \<in> lang (deriv c (Star r))"
    then obtain u v where "w = u @ v" "u \<in> lang (deriv c r)" "v \<in> star (lang r)" by auto
    then show "c # w \<in> lang (Star r)"
      using Star.IH by (auto simp: star_cons)
  next
    assume "c # w \<in> lang (Star r)"
    then obtain u v where "w = u @ v" "c # u \<in> lang r" "v \<in> star (lang r)"
      by (auto simp: star_cons)
    then show "w \<in> lang (deriv c (Star r))" using Star.IH by auto
  qed
qed auto

lemma match_here_lang: "match_here r s \<longleftrightarrow> (\<exists>u v. s = u @ v \<and> u \<in> lang r)"
proof (induction s arbitrary: r)
  case Nil
  then show ?case by (simp add: nullable_lang)
next
  case (Cons c cs)
  show ?case
  proof
    assume "match_here r (c # cs)"
    then consider "[] \<in> lang r" | u v where "cs = u @ v" "c # u \<in> lang r"
      using Cons.IH by (auto simp: nullable_lang deriv_lang)
    then show "\<exists>u v. c # cs = u @ v \<and> u \<in> lang r"
    proof cases
      case 1
      then have "c # cs = [] @ (c # cs) \<and> [] \<in> lang r" by simp
      then show ?thesis by blast
    next
      case 2
      then have "c # cs = (c # u) @ v \<and> c # u \<in> lang r" by simp
      then show ?thesis by blast
    qed
  next
    assume "\<exists>u v. c # cs = u @ v \<and> u \<in> lang r"
    then obtain u v where uv: "c # cs = u @ v" "u \<in> lang r" by blast
    show "match_here r (c # cs)"
    proof (cases u)
      case Nil
      with uv have "nullable r" by (simp add: nullable_lang)
      then show ?thesis by simp
    next
      case (Cons a u')
      with uv have "cs = u' @ v" "u' \<in> lang (deriv c r)" by (auto simp: deriv_lang)
      then have "match_here (deriv c r) cs" using Cons.IH by blast
      then show ?thesis by simp
    qed
  qed
qed

lemma test_lang: "test r s \<longleftrightarrow> (\<exists>p u q. s = p @ u @ q \<and> u \<in> lang r)"
proof (induction s)
  case Nil
  then show ?case by (simp add: nullable_lang)
next
  case (Cons c cs)
  show ?case
  proof
    assume "test r (c # cs)"
    then consider "match_here r (c # cs)" | "test r cs" by auto
    then show "\<exists>p u q. c # cs = p @ u @ q \<and> u \<in> lang r"
    proof cases
      case 1
      then obtain u v where "c # cs = u @ v" "u \<in> lang r" by (auto simp: match_here_lang)
      then have "c # cs = [] @ u @ v \<and> u \<in> lang r" by simp
      then show ?thesis by blast
    next
      case 2
      then obtain p u q where "cs = p @ u @ q" "u \<in> lang r" using Cons.IH by blast
      then have "c # cs = (c # p) @ u @ q \<and> u \<in> lang r" by simp
      then show ?thesis by blast
    qed
  next
    assume "\<exists>p u q. c # cs = p @ u @ q \<and> u \<in> lang r"
    then obtain p u q where puq: "c # cs = p @ u @ q" "u \<in> lang r" by blast
    show "test r (c # cs)"
    proof (cases p)
      case Nil
      with puq have "match_here r (c # cs)" by (auto simp: match_here_lang)
      then show ?thesis by simp
    next
      case (Cons a p')
      with puq have "cs = p' @ u @ q" by simp
      with puq(2) have "test r cs" using Cons.IH by blast
      then show ?thesis by simp
    qed
  qed
qed

lemma match_here_nullable: "nullable r \<Longrightarrow> match_here r s"
  by (cases s) auto

lemma test_of_match_here: "match_here r s \<Longrightarrow> test r s"
  by (cases s) auto

lemma test_append_left: "match_here r s \<Longrightarrow> test r (p @ s)"
  by (induction p) (auto simp: test_of_match_here)

lemma test_OneOf: "c \<in> set t \<Longrightarrow> c \<in> set cs \<Longrightarrow> test (OneOf cs) t"
proof (induction t)
  case Nil
  then show ?case by simp
next
  case (Cons a t)
  then show ?case by (cases "a = c") (auto simp: match_here_nullable)
qed

lemma any_pattern_matches_iff: "any_pattern_matches ps s \<longleftrightarrow> (\<exists>p\<in>set ps. test p s)"
  by (induction ps) auto

lemma dropWhile_append_keep:
  "xs \<noteq> [] \<Longrightarrow> \<not> P (hd xs) \<Longrightarrow> dropWhile P (xs @ ys) = xs @ ys"
  by (cases xs) auto

text \<open>Trimming keeps every part of the string that neither starts nor ends with white space.\<close>

lemma trim_keeps_middle:
  assumes "s = p @ m @ q" "m \<noteq> []" "\<not> is_space (hd m)" "\<not> is_space (last m)"
  shows "\<exists>p' q'. trim s = p' @ m @ q'"
proof -
  have a: "dropWhile is_space s = dropWhile is_space p @ m @ q"
  proof (cases "\<forall>x\<in>set p. is_space x")
    case True
    have "dropWhile is_space (m @ q) = m @ q"
      using assms(2,3) by (rule dropWhile_append_keep)
    with True show ?thesis by (simp add: assms(1) dropWhile_append)
  next
    case False
    then show ?thesis by (auto simp add: assms(1) dropWhile_append)
  qed
  define p' where "p' = dropWhile is_space p"
  have "rev (dropWhile is_space s) = rev q @ rev m @ rev p'"
    by (simp add: a p'_def)
  moreover have "dropWhile is_space (rev q @ rev m @ rev p') =
      dropWhile is_space (rev q) @ rev m @ rev p'"
  proof (cases "\<forall>x\<in>set (rev q). is_space x")
    case True
    have "hd (rev m) = last m" using assms(2) by (simp add: hd_rev)
    then have "dropWhile is_space (rev m @ rev p') = rev m @ rev p'"
      using assms(2,4) by (intro dropWhile_append_keep) auto
    with True show ?thesis by (simp add: dropWhile_append)
  next
    case False
    then show ?thesis by (auto simp add: dropWhile_append)
  qed
  ultimately have "trim s = p' @ m @ rev (dropWhile is_space (rev q))"
    by (simp add: trim_def)
  then show ?thesis by blast
qed

lemma in_trim: "c \<in> set s \<Longrightarrow> \<not> is_space c \<Longrightarrow> c \<in> set (trim s)"
proof -
  assume c: "c \<in> set s" and n: "\<not> is_space c"
  then obtain p q where "s = p @ [c] @ q" by (auto simp: in_set_conv_decomp)
  then have "\<exists>p' q'. trim s = p' @ [c] @ q'"
    by (rule trim_keeps_middle) (simp_all add: n)
  then obtain p' q' where "trim s = p' @ [c] @ q'" by blast
  then show ?thesis by simp
qed

lemma hd_split_str:
  "split_str d s \<noteq> [] \<and> hd (split_str d s) = takeWhile (\<lambda>x. x \<noteq> d) s"
  by (induction s) (auto split: list.splits)

lemma baseCommand_of_eq:
  "baseCommand_of s = Some (takeWhile (\<lambda>x. x \<noteq> CHR '' '') s)"
  using hd_split_str[of "CHR '' ''" s] by (auto simp: baseCommand_of_def split: list.splits)

lemma space_is_space: "is_space (CHR '' '')"
  by (simp add: is_space_def)

lemma takeWhile_not_space:
  "\<forall>x\<in>set (takeWhile (\<lambda>x. x \<noteq> CHR '' '') t). \<not> is_space x \<Longrightarrow>
   takeWhile (\<lambda>x. \<not> is_space x) t = takeWhile (\<lambda>x. x \<noteq> CHR '' '') t"
proof (induction t)
  case Nil
  then show ?case by simp
next
  case (Cons a t)
  show ?case
  proof (cases "a = CHR '' ''")
    case True
    then show ?thesis by (simp add: space_is_space)
  next
    case False
    with Cons.prems have "\<not> is_space a" by simp
    moreover from False Cons.prems
    have "\<forall>x\<in>set (takeWhile (\<lambda>x. x \<noteq> CHR '' '') t). \<not> is_space x" by simp
    ultimately show ?thesis using False Cons.IH by simp
  qed
qed

lemma allowed_no_space: "w \<in> set allowedCommands \<Longrightarrow> \<forall>c\<in>set w. \<not> is_space c"
  by (auto simp: allowedCommands_def is_space_def)

section \<open>Command validation\<close>

lemma validateCommand_valid:
  "valid (validateCommand command) \<longleftrightarrow>
     trim command \<noteq> [] \<and>
     \<not> any_pattern_matches dangerousPatterns (trim command) \<and>
     takeWhile (\<lambda>x. x \<noteq> CHR '' '') (trim command) \<in> set allowedCommands"
proof -
  have nil: "[] \<notin> set allowedCommands" by (simp add: allowedCommands_def)
  show ?thesis
    unfolding validateCommand_def Let_def baseCommand_of_eq option.case
    using nil by auto
qed

text \<open>
  C3, as the code has it. A command is valid exactly when, trimmed, it is not empty, none
  of the dangerous patterns matches it, and what stands before its first space character
  (U+0020, the separator of \<open>split(' ')\<close>) is on the allow-list. A command that contains a
  shell metacharacter is rejected whatever its leading token, and so is a command whose first
  white-space-delimited token is not on the allow-list.
\<close>

theorem validateCommand_valid_iff:
  "(valid (validateCommand command) \<longleftrightarrow>
      trim command \<noteq> [] \<and>
      (\<forall>p\<in>set dangerousPatterns. \<not> test p (trim command)) \<and>
      takeWhile (\<lambda>x. x \<noteq> CHR '' '') (trim command) \<in> set allowedCommands)
   \<and> ((\<exists>c\<in>set command. c \<in> set shell_metacharacters) \<longrightarrow>
         \<not> valid (validateCommand command))
   \<and> (leading_token (trim command) \<notin> set allowedCommands \<longrightarrow>
         \<not> valid (validateCommand command))"
proof -
  let ?t = "trim command"
  let ?b = "takeWhile (\<lambda>x. x \<noteq> CHR '' '') ?t"
  have iff: "valid (validateCommand command) \<longleftrightarrow>
      ?t \<noteq> [] \<and> (\<forall>p\<in>set dangerousPatterns. \<not> test p ?t) \<and> ?b \<in> set allowedCommands"
    unfolding validateCommand_valid any_pattern_matches_iff by blast
  have meta: "\<not> valid (validateCommand command)"
    if "\<exists>c\<in>set command. c \<in> set shell_metacharacters"
  proof -
    from that obtain c where c: "c \<in> set command" "c \<in> set shell_metacharacters" by blast
    then have "\<not> is_space c" by (auto simp: shell_metacharacters_def is_space_def)
    with c have "c \<in> set ?t" by (simp add: in_trim)
    with c have "test (OneOf shell_metacharacters) ?t" by (simp add: test_OneOf)
    moreover have "OneOf shell_metacharacters \<in> set dangerousPatterns"
      by (simp add: dangerousPatterns_def)
    ultimately have "\<exists>p\<in>set dangerousPatterns. test p ?t" by blast
    with iff show ?thesis by blast
  qed
  have tok: "\<not> valid (validateCommand command)"
    if n: "leading_token ?t \<notin> set allowedCommands"
  proof
    assume "valid (validateCommand command)"
    with iff have b: "?b \<in> set allowedCommands" by blast
    then have "\<forall>c\<in>set ?b. \<not> is_space c" by (rule allowed_no_space)
    then have "takeWhile (\<lambda>x. \<not> is_space x) ?t = ?b"
      by (rule takeWhile_not_space)
    with b n show False by (simp add: leading_token_def)
  qed
  from iff meta tok show ?thesis by blast
qed

text \<open>
  The characterisation at \<open>ls -la\<close>, which is valid, and at \<open>ls; id\<close> and \<open>rm -r x\<close>,
  which the second and the third part reject.
\<close>

theorem validateCommand_valid_iff_witness:
  "valid (validateCommand ''ls -la'') \<and>
   (\<exists>c\<in>set ''ls; id''. c \<in> set shell_metacharacters) \<and> \<not> valid (validateCommand ''ls; id'') \<and>
   leading_token (trim ''rm -r x'') \<notin> set allowedCommands \<and> \<not> valid (validateCommand ''rm -r x'')"
proof -
  have a: "trim ''ls -la'' = ''ls -la''" by (simp add: trim_def is_space_def)
  have b: "\<forall>p\<in>set dangerousPatterns. \<not> test p ''ls -la''"
    by (simp add: dangerousPatterns_def shell_metacharacters_def Plus_def is_space_def
        is_line_terminator_def)
  have c: "takeWhile (\<lambda>x. x \<noteq> CHR '' '') ''ls -la'' \<in> set allowedCommands"
    by (simp add: allowedCommands_def)
  have d: "\<exists>c\<in>set ''ls; id''. c \<in> set shell_metacharacters"
    by (simp add: shell_metacharacters_def)
  have e: "leading_token (trim ''rm -r x'') \<notin> set allowedCommands"
    by (simp add: leading_token_def trim_def is_space_def allowedCommands_def)
  from validateCommand_valid_iff [of "''ls -la''"] a b c
  have "valid (validateCommand ''ls -la'')" by simp
  moreover from validateCommand_valid_iff [of "''ls; id''"] d
  have "\<not> valid (validateCommand ''ls; id'')" by blast
  moreover from validateCommand_valid_iff [of "''rm -r x''"] e
  have "\<not> valid (validateCommand ''rm -r x'')" by blast
  ultimately show ?thesis using d e by blast
qed

text \<open>
  C3 as stated fails at \<open>ls<TAB>-la\<close>: trimmed it is not empty, no dangerous pattern matches
  it and its first white-space-delimited token \<open>ls\<close> is on the allow-list, yet it is not
  valid, because \<open>split(' ')\<close> leaves the whole line as the base command.
\<close>

theorem validateCommand_tab_counterexample:
  "\<not> (valid (validateCommand (''ls'' @ [CHR 0x09] @ ''-la'')) \<longleftrightarrow>
        trim (''ls'' @ [CHR 0x09] @ ''-la'') \<noteq> [] \<and>
        \<not> any_pattern_matches dangerousPatterns (trim (''ls'' @ [CHR 0x09] @ ''-la'')) \<and>
        leading_token (trim (''ls'' @ [CHR 0x09] @ ''-la'')) \<in> set allowedCommands)"
  by code_simp

lemma su_matches: "match_here (Alt (lit ''sudo'') (lit ''su'')) (''su'' @ q)"
  by (simp add: match_here_nullable)

text \<open>
  C10. A command that contains \<open>su\<close> anywhere is rejected as containing a dangerous
  pattern, whatever its leading token.
\<close>

theorem validateCommand_su_rejected:
  assumes "includes_str command ''su''"
  shows "validateCommand command =
         \<lparr>valid = False, error = Some ''Command contains dangerous patterns''\<rparr>"
proof -
  from assms obtain p q where "command = p @ ''su'' @ q" by (auto simp: includes_str_iff)
  then have "\<exists>p' q'. trim command = p' @ ''su'' @ q'"
    by (rule trim_keeps_middle) (simp_all add: is_space_def)
  then obtain p' q' where t: "trim command = p' @ ''su'' @ q'" by blast
  have "test (Alt (lit ''sudo'') (lit ''su'')) (trim command)"
    unfolding t by (rule test_append_left) (rule su_matches)
  moreover have "Alt (lit ''sudo'') (lit ''su'') \<in> set dangerousPatterns"
    by (simp add: dangerousPatterns_def)
  ultimately have "any_pattern_matches dangerousPatterns (trim command)"
    unfolding any_pattern_matches_iff by blast
  moreover have "trim command \<noteq> []" using t by simp
  ultimately show ?thesis by (simp add: validateCommand_def)
qed

text \<open>The command \<open>ls results.txt\<close>, whose leading token is allow-listed.\<close>

theorem validateCommand_su_rejected_witness:
  "includes_str ''ls results.txt'' ''su'' \<and>
   takeWhile (\<lambda>x. x \<noteq> CHR '' '') ''ls results.txt'' \<in> set allowedCommands \<and>
   validateCommand ''ls results.txt'' =
     \<lparr>valid = False, error = Some ''Command contains dangerous patterns''\<rparr>"
proof -
  have a: "includes_str ''ls results.txt'' ''su''" by simp
  have b: "takeWhile (\<lambda>x. x \<noteq> CHR '' '') ''ls results.txt'' \<in> set allowedCommands"
    by (simp add: allowedCommands_def)
  from validateCommand_su_rejected [OF a] a b show ?thesis by simp
qed

section \<open>The shape of a tool result\<close>

lemmas io_defs = io_catch_def io_bind_def io_lift_def io_throw_def io_return_def io_effect_def
  failure_def throw_validation_def

lemma io_returns_return: "P x \<Longrightarrow> io_returns P (io_return x)"
  by (simp add: io_returns_def io_return_def)

lemma io_returns_throw: "io_returns P (io_throw e)"
  by (simp add: io_returns_def io_throw_def)

lemma io_returns_throw_validation: "io_returns P (throw_validation v)"
  by (simp add: throw_validation_def io_returns_throw)

lemma io_returns_bind: "(\<And>x. io_returns P (f x)) \<Longrightarrow> io_returns P (io_bind m f)"
  unfolding io_returns_def io_bind_def
  by (auto split: prod.splits sum.splits)

lemma io_returns_if:
  "(c \<Longrightarrow> io_returns P a) \<Longrightarrow> (\<not> c \<Longrightarrow> io_returns P b) \<Longrightarrow>
   io_returns P (if c then a else b)"
  by simp

lemma io_returns_case_prod:
  "(\<And>a b. io_returns P (f a b)) \<Longrightarrow> io_returns P (case_prod f x)"
  by (cases x) simp

lemmas io_returns_intros =
  io_returns_bind io_returns_return io_returns_throw io_returns_throw_validation io_returns_if

text \<open>
  A \<open>try\<close> block that returns only successes, under the \<open>catch\<close> block of the tools,
  returns a success or a failure with empty output and an error message, and never throws.
\<close>

lemma catch_failure_shape:
  assumes "io_returns succeeded m"
  shows "\<exists>r tr'. io_catch m failure tr = (Inr r, tr') \<and>
           (succeeded r \<or>
            (\<not> success r \<and> ToolResult.output r = [] \<and> ToolResult.error r \<noteq> None))"
proof (cases "m tr")
  case (Pair res tr')
  show ?thesis
  proof (cases res)
    case (Inl e)
    with Pair show ?thesis by (simp add: io_catch_def failure_def io_return_def)
  next
    case (Inr r)
    with Pair assms have "succeeded r" by (auto simp: io_returns_def)
    with Pair Inr show ?thesis by (simp add: io_catch_def)
  qed
qed

lemma execute_shape:
  "\<exists>r tr'. execute w t params tr = (Inr r, tr') \<and>
     (succeeded r \<or>
      (\<not> success r \<and> ToolResult.output r = [] \<and> ToolResult.error r \<noteq> None))"
proof (cases t)
  case WebSearchTool
  show ?thesis unfolding WebSearchTool execute.simps WebSearchTool_execute_def Let_def
    by (rule catch_failure_shape) (intro io_returns_intros, simp add: succeeded_def)
next
  case FileSystemGrepTool
  show ?thesis unfolding FileSystemGrepTool execute.simps FileSystemGrepTool_execute_def Let_def
    by (rule catch_failure_shape)
       (intro io_returns_intros io_returns_case_prod, simp_all add: succeeded_def)
next
  case TerminalCommandTool
  show ?thesis unfolding TerminalCommandTool execute.simps TerminalCommandTool_execute_def Let_def
    by (rule catch_failure_shape)
       (intro io_returns_intros io_returns_case_prod, simp_all add: succeeded_def)
next
  case FolderIndexingTool
  show ?thesis unfolding FolderIndexingTool execute.simps FolderIndexingTool_execute_def
    by (rule catch_failure_shape)
       (intro io_returns_intros, simp_all add: succeeded_def)
next
  case ReadFileTool
  show ?thesis unfolding ReadFileTool execute.simps ReadFileTool_execute_def
    by (rule catch_failure_shape)
       (intro io_returns_intros, simp_all add: succeeded_def)
qed

text \<open>Two runs of the terminal command tool: a rejected command and an accepted one.\<close>

lemma example_rm_run:
  "execute example_world TerminalCommandTool (Some (JObj [(''command'', JStr ''rm -rf /'')])) [] =
     (Inr \<lparr>success = False, output = [], error = Some ''Command contains dangerous patterns''\<rparr>,
      [])"
proof -
  have v: "validateCommand ''rm -rf /'' =
      \<lparr>valid = False, error = Some ''Command contains dangerous patterns''\<rparr>"
    by code_simp
  show ?thesis
    by (simp add: TerminalCommandTool_execute_def io_defs v)
qed

lemma example_ls_run:
  "execute example_world TerminalCommandTool (Some (JObj [(''command'', JStr ''ls'')])) [] =
     (Inr \<lparr>success = True, output = ''notes.txt'' @ [CHR 0x0A], error = None\<rparr>,
      [Exec ''ls'' \<lparr>timeout = 30000, maxBuffer = 1048576, cwd = Some ''/home/app'',
         env = Some [(''PATH'', ''/usr/bin''), (''ANTHROPIC_API_KEY'', ''sk-ant-secret'')]\<rparr>])"
proof -
  have v: "validateCommand ''ls'' = \<lparr>valid = True, error = None\<rparr>"
    by code_simp
  have s: "sanitizeCommand ''ls'' = ''ls''"
    by (simp add: sanitizeCommand_def trim_def is_space_def)
  show ?thesis
    by (simp add: TerminalCommandTool_execute_def io_defs v s exec_options_def example_world_def
        or_default_def)
qed

text \<open>
  C9. Every \<open>ToolResult\<close> that one of the five tools returns has an empty output when it is
  no success, and no error when it is one.
\<close>

theorem ToolResult_invariant:
  "execute w t params tr = (Inr r, tr') \<Longrightarrow>
   (\<not> success r \<longrightarrow> ToolResult.output r = []) \<and> (success r \<longrightarrow> ToolResult.error r = None)"
  using execute_shape [of w t params tr] by (auto simp: succeeded_def)

text \<open>The results of the two runs above, a failure and a success.\<close>

theorem ToolResult_invariant_witness:
  "\<not> success \<lparr>success = False, output = [], error = Some ''Command contains dangerous patterns''\<rparr> \<and>
   ToolResult.output
     \<lparr>success = False, output = [], error = Some ''Command contains dangerous patterns''\<rparr> = [] \<and>
   success \<lparr>success = True, output = ''notes.txt'' @ [CHR 0x0A], error = None\<rparr> \<and>
   ToolResult.error \<lparr>success = True, output = ''notes.txt'' @ [CHR 0x0A], error = None\<rparr> = None"
  using ToolResult_invariant [OF example_rm_run] ToolResult_invariant [OF example_ls_run]
  by simp

section \<open>The terminal command tool: the spawned process\<close>

text \<open>
  C1 at the accepted command \<open>ls\<close>, in a process whose environment holds \<open>PATH\<close> and
  \<open>ANTHROPIC_API_KEY\<close>. The shell is spawned with the timeout of 30 seconds, the buffer of
  1 MB and the working directory of the process, and with an environment that holds the
  secret beside \<open>PATH\<close>: \<open>...process.env\<close> copies every variable.
\<close>

theorem TerminalCommandTool_forwards_whole_environment:
  "valid (validateCommand ''ls'') \<and>
   snd (TerminalCommandTool_execute example_world (Some (JObj [(''command'', JStr ''ls'')])) []) =
     [Exec ''ls''
        \<lparr>timeout = 30000, maxBuffer = 1048576, cwd = Some ''/home/app'',
         env = Some [(''PATH'', ''/usr/bin''), (''ANTHROPIC_API_KEY'', ''sk-ant-secret'')]\<rparr>]"
proof -
  have "valid (validateCommand ''ls'')" by code_simp
  then show ?thesis using example_ls_run by simp
qed

section \<open>The file read tool: the size ceiling\<close>

lemma show_nat_small: "n < 10 \<Longrightarrow> show_nat n = [digit_char n]"
  by (simp add: show_nat.simps)

lemma show_nat_large:
  "10 \<le> n \<Longrightarrow> show_nat n = show_nat (n div 10) @ [digit_char (n mod 10)]"
  by (subst show_nat.simps) simp

lemmas show_nat_eval = show_nat_small show_nat_large digit_char_def

lemma validateFile_too_large:
  assumes "fs_stat w tr (path_resolve (process_cwd w) fp) = Inr st"
    and "isFile st" and "size st > maxFileSize (config w)"
  shows "ReadFileTool_validateFile w (Some (JStr fp)) tr =
           (Inr (invalid (''File size ('' @ show_nat (size st) @
                          '' bytes) exceeds maximum allowed size ('' @
                          show_nat (maxFileSize (config w)) @ '' bytes)'')),
            tr @ [FsStat (path_resolve (process_cwd w) fp)])"
  using assms by (simp add: ReadFileTool_validateFile_def resolve_arg_def io_defs)

text \<open>
  C6. When \<open>stat\<close> reports a file larger than the configured maximum, the read request
  returns a failure whose error is the size message of the validation, and what it does to the
  outside holds no read of a file.
\<close>

theorem ReadFileTool_too_large:
  assumes "get_prop params ''filepath'' = Inr (Some (JStr fp))"
    and "fs_stat w tr (path_resolve (process_cwd w) fp) = Inr st"
    and "isFile st" and "size st > maxFileSize (config w)"
  shows "\<exists>tr'. ReadFileTool_execute w params tr =
           (Inr \<lparr>success = False, output = [],
                 error = Some (''File size ('' @ show_nat (size st) @
                               '' bytes) exceeds maximum allowed size ('' @
                               show_nat (maxFileSize (config w)) @ '' bytes)'')\<rparr>,
            tr @ tr') \<and> \<not> list_ex is_read tr'"
proof -
  let ?msg = "''File size ('' @ show_nat (size st) @ '' bytes) exceeds maximum allowed size ('' @
              show_nat (maxFileSize (config w)) @ '' bytes)''"
  have "ReadFileTool_execute w params tr =
          (Inr \<lparr>success = False, output = [], error = Some ?msg\<rparr>,
           tr @ [FsStat (path_resolve (process_cwd w) fp)])"
    using assms(1) validateFile_too_large [OF assms(2,3,4)]
    by (simp add: ReadFileTool_execute_def io_defs invalid_def)
  moreover have "\<not> list_ex is_read [FsStat (path_resolve (process_cwd w) fp)]" by simp
  ultimately show ?thesis by blast
qed

lemma example_big_stat:
  "fs_stat example_world []
     (path_resolve (process_cwd example_world) ''/tmp/splunk-agent-sandbox/big.log'') =
   Inr \<lparr>isFile = True, isDirectory = False, size = 20971520,
        mtime = ''2024-01-01T00:00:00.000Z''\<rparr>"
proof -
  have "path_resolve ''/home/app'' ''/tmp/splunk-agent-sandbox/big.log'' =
        ''/tmp/splunk-agent-sandbox/big.log''"
    by code_simp
  then show ?thesis by (simp add: example_world_def example_stat_def)
qed

text \<open>A file of 20 MB in the sandbox, under the default ceiling of 10 MB.\<close>

theorem ReadFileTool_too_large_witness:
  "\<exists>tr'. ReadFileTool_execute example_world
           (Some (JObj [(''filepath'', JStr ''/tmp/splunk-agent-sandbox/big.log'')])) [] =
         (Inr \<lparr>success = False, output = [],
               error = Some ''File size (20971520 bytes) exceeds maximum allowed size (10485760 bytes)''\<rparr>,
          tr') \<and> \<not> list_ex is_read tr'"
proof -
  have a: "get_prop (Some (JObj [(''filepath'', JStr ''/tmp/splunk-agent-sandbox/big.log'')]))
             ''filepath'' = Inr (Some (JStr ''/tmp/splunk-agent-sandbox/big.log''))"
    by simp
  have n1: "show_nat 20971520 = ''20971520''" by (simp add: show_nat_eval)
  have n2: "show_nat 10485760 = ''10485760''" by (simp add: show_nat_eval)
  have c: "maxFileSize (config example_world) = 10485760"
    by (simp add: example_world_def default_config_def)
  from ReadFileTool_too_large [OF a example_big_stat] c n1 n2
  show ?thesis by simp
qed

section \<open>Path containment\<close>

lemma example_sibling_resolve:
  "path_resolve ''/home/app'' ''/tmp/splunk-agent-sandbox-evil/notes.txt'' =
   ''/tmp/splunk-agent-sandbox-evil/notes.txt''"
  by code_simp

lemma example_roots_resolve:
  "path_resolve ''/home/app'' ''/home/app'' = ''/home/app''"
  "path_resolve ''/home/app'' ''/tmp/splunk-agent-sandbox'' = ''/tmp/splunk-agent-sandbox''"
  by code_simp+

lemma example_sibling_checks:
  "\<not> has_traversal ''/tmp/splunk-agent-sandbox-evil/notes.txt''"
  "extname ''/tmp/splunk-agent-sandbox-evil/notes.txt'' = ''.txt''"
  by code_simp+

lemma example_sibling_allowed:
  "isAllowed example_world ''/tmp/splunk-agent-sandbox-evil/notes.txt''"
  by (simp add: isAllowed_def example_world_def default_config_def example_roots_resolve
      startsWith_def)

text \<open>
  C2 at a file in \<open>/tmp/splunk-agent-sandbox-evil\<close>, a sibling of the sandbox directory
  \<open>/tmp/splunk-agent-sandbox\<close> whose name extends it. The file lies in neither root, and
  both the file read tool and the grep tool accept its path: \<open>startsWith\<close> compares
  characters, not path segments.
\<close>

theorem sibling_of_sandbox_accepted:
  "\<not> within_root ''/home/app'' ''/tmp/splunk-agent-sandbox-evil/notes.txt'' \<and>
   \<not> within_root ''/tmp/splunk-agent-sandbox'' ''/tmp/splunk-agent-sandbox-evil/notes.txt'' \<and>
   ReadFileTool_validateFile example_world
       (Some (JStr ''/tmp/splunk-agent-sandbox-evil/notes.txt'')) [] =
     (Inr \<lparr>valid = True, error = None\<rparr>, [FsStat ''/tmp/splunk-agent-sandbox-evil/notes.txt'']) \<and>
   FileSystemGrepTool_validatePath example_world
       (Some (JStr ''/tmp/splunk-agent-sandbox-evil/notes.txt'')) [] =
     (Inr \<lparr>valid = True, error = None\<rparr>, [FsAccess ''/tmp/splunk-agent-sandbox-evil/notes.txt''])"
proof -
  let ?p = "''/tmp/splunk-agent-sandbox-evil/notes.txt''"
  have w: "process_cwd example_world = ''/home/app''"
    and cfg: "config example_world = default_config"
    and st: "fs_stat example_world [] ?p =
             Inr \<lparr>isFile = True, isDirectory = False, size = 12,
                  mtime = ''2024-01-01T00:00:00.000Z''\<rparr>"
    and acc: "fs_access example_world [] ?p = Inr ()"
    by (simp_all add: example_world_def example_stat_def)
  have ext: "''.txt'' \<in> set (allowedExtensions default_config)"
    and mx: "maxFileSize default_config = 10485760"
    by (simp_all add: default_config_def)
  have a: "\<not> within_root ''/home/app'' ?p"
    by (simp add: within_root_def)
  have b: "\<not> within_root ''/tmp/splunk-agent-sandbox'' ?p"
    by (simp add: within_root_def)
  have c: "ReadFileTool_validateFile example_world (Some (JStr ?p)) [] =
     (Inr \<lparr>valid = True, error = None\<rparr>, [FsStat ?p])"
    by (simp add: ReadFileTool_validateFile_def resolve_arg_def w cfg st ext mx Let_def
        example_sibling_resolve io_defs example_sibling_checks example_sibling_allowed is_valid_def)
  have d: "FileSystemGrepTool_validatePath example_world (Some (JStr ?p)) [] =
     (Inr \<lparr>valid = True, error = None\<rparr>, [FsAccess ?p])"
    by (simp add: FileSystemGrepTool_validatePath_def resolve_arg_def w acc
        example_sibling_resolve io_defs example_sibling_checks example_sibling_allowed is_valid_def)
  from a b c d show ?thesis by blast
qed

section \<open>The grep tool: the command line\<close>

text \<open>
  C4 at the pattern \<open>x" /etc/passwd "\<close>. Sanitization leaves it as it is, and in the command
  line the first quotation mark of the pattern closes the quoted argument: \<open>/etc/passwd\<close>
  stands outside the quotes, as a further argument of \<open>grep\<close>.
\<close>

theorem sanitizePattern_keeps_quotation_mark:
  "sanitizePattern example_pattern = example_pattern \<and>
   grepCommand default_config (sanitizePattern example_pattern) (sanitizePath ''.'') =
     ''grep -r -n -H --include='' @ [CHR 0x22] @
     ''*.{js,ts,py,java,xml,json,csv,txt,log,yml,yaml,config,properties,ini}'' @ [CHR 0x22] @
     '' '' @ [CHR 0x22] @ ''x'' @ [CHR 0x22] @ '' /etc/passwd '' @ [CHR 0x22, CHR 0x22] @
     '' '' @ [CHR 0x22] @ ''.'' @ [CHR 0x22]"
  by (simp add: sanitizePattern_def sanitizePath_def escape_chars_def escaped_characters_def
      example_pattern_def grepCommand_def default_config_def)

section \<open>The query agent: parsing what the model answers\<close>

lemma after_first_None: "after_first lbl s = None \<longleftrightarrow> \<not> includes_str s lbl"
  by (induction s) auto

text \<open>
  C8, as the code has it. When the label \<open>EXPLANATION:\<close> is absent the explanation is the
  marker \<open>No explanation provided\<close>, and when the label \<open>QUERY:\<close> is absent the query is the
  whole output of the model with the white space at its ends trimmed. Parsing is a total
  function of the output.
\<close>

theorem parseQueryResponse_fallbacks:
  "(\<not> includes_str response ''EXPLANATION:'' \<longrightarrow>
      snd (parseQueryResponse response) = ''No explanation provided'') \<and>
   (\<not> includes_str response ''QUERY:'' \<longrightarrow>
      fst (parseQueryResponse response) = trim response)"
  by (simp add: parseQueryResponse_def Let_def queryMatch_def explanationMatch_def trimmed_or_def
      after_first_None [symmetric])

text \<open>An output with neither label.\<close>

theorem parseQueryResponse_fallbacks_witness:
  "\<not> includes_str '' index=main error '' ''EXPLANATION:'' \<and>
   \<not> includes_str '' index=main error '' ''QUERY:'' \<and>
   parseQueryResponse '' index=main error '' = (''index=main error'', ''No explanation provided'')"
proof -
  have a: "\<not> includes_str '' index=main error '' ''EXPLANATION:''" by simp
  have b: "\<not> includes_str '' index=main error '' ''QUERY:''" by simp
  have t: "trim '' index=main error '' = ''index=main error''"
    by (simp add: trim_def is_space_def)
  from parseQueryResponse_fallbacks [of "'' index=main error ''"] a b t
  show ?thesis by (simp add: prod_eq_iff)
qed

text \<open>
  C8 as stated fails at an output that starts or ends with white space: the query is not the
  raw output.
\<close>

theorem parseQueryResponse_raw_counterexample:
  "\<not> includes_str '' index=main error '' ''QUERY:'' \<and>
   fst (parseQueryResponse '' index=main error '') \<noteq> '' index=main error ''"
  by (simp add: parseQueryResponse_def Let_def queryMatch_def trimmed_or_def trim_def is_space_def)

section \<open>The query agent: an answer that gives no array of tools\<close>












section \<open>What the tools return when something fails\<close>

lemma failure_failed: "failure e tr = (Inr (failed (message_or ''Unknown error'' e)), tr)"
  by (simp add: failure_def failed_def io_return_def)




























end
